theory Spec2Isabelle
  imports Main
begin

section \<open>Python values\<close>

text \<open>
  A Python \<open>str\<close> is a sequence of Unicode code points, a \<open>bytes\<close> object a sequence
  of octets. The two are kept apart, since \<open>.encode('ascii')\<close> is the only way from one
  to the other and it raises on a code point above 127.
\<close>

type_synonym pystr = "nat list"
type_synonym bytes = "char list"

text \<open>A \<open>str\<close> literal of the source: \<open>py ''tmp''\<close> stands for \<open>'tmp'\<close>.\<close>

definition py :: "string \<Rightarrow> pystr" where
  "py s = map of_char s"

text \<open>
  Exceptions as values. \<open>Exc\<close> carries the class name of an exception deriving from
  \<open>Exception\<close>; \<open>BaseExc\<close> one that derives from \<open>BaseException\<close> only
  (\<open>SystemExit\<close>, \<open>KeyboardInterrupt\<close>, \<open>GeneratorExit\<close>), which
  \<open>except Exception\<close> lets through.
\<close>

datatype exc = Exc string | BaseExc string

fun is_Exception :: "exc \<Rightarrow> bool" where
  "is_Exception (Exc _) = True"
| "is_Exception (BaseExc _) = False"

text \<open>\<open>str(n)\<close> for a non-negative integer: its decimal digits.\<close>

fun str_nat :: "nat \<Rightarrow> pystr" where
  "str_nat n = (if n < 10 then [48 + n] else str_nat (n div 10) @ [48 + n mod 10])"

declare str_nat.simps [simp del]

text \<open>\<open>str(i)\<close> and \<open>'%d' % i\<close> for an \<open>int\<close>.\<close>

definition str_int :: "int \<Rightarrow> pystr" where
  "str_int i = (if i < 0 then 45 # str_nat (nat (- i)) else str_nat (nat i))"

text \<open>\<open>s.encode('ascii')\<close>: raises \<open>UnicodeEncodeError\<close> on a code point above 127.\<close>

text \<open>A \<open>str\<close> that \<open>.encode('ascii')\<close> accepts.\<close>

abbreviation ascii :: "pystr \<Rightarrow> bool" where
  "ascii s \<equiv> list_all (\<lambda>c. c < 128) s"

definition encode_ascii :: "pystr \<Rightarrow> exc + bytes" where
  "encode_ascii s =
     (if ascii s then Inr (map char_of s) else Inl (Exc ''UnicodeEncodeError''))"

section \<open>The wire encoder (buildbot.py)\<close>

text \<open>
  \<^verbatim>\<open>
  def make_netstring(s):
      return str(len(s)).encode('ascii') + b':' + s + b','
  \<close>
\<close>

definition make_netstring :: "bytes \<Rightarrow> exc + bytes" where
  "make_netstring s =
     (case encode_ascii (str_nat (length s)) of
        Inl e \<Rightarrow> Inl e
      | Inr n \<Rightarrow> Inr (n @ '':'' @ s @ '',''))"

subsection \<open>A netstring reader, written from the specification\<close>

text \<open>
  The reader the specification describes for the round trip: read the decimal length up
  to the colon, take exactly that many payload bytes, expect a comma after them. It
  returns the payload and the bytes that follow the netstring.
\<close>

definition is_digit :: "char \<Rightarrow> bool" where
  "is_digit c = (48 \<le> (of_char c :: nat) \<and> (of_char c :: nat) \<le> 57)"

definition digits_value :: "bytes \<Rightarrow> nat" where
  "digits_value ds = foldl (\<lambda>a c. 10 * a + (of_char c - 48)) 0 ds"

definition parse_netstring :: "bytes \<Rightarrow> (bytes \<times> bytes) option" where
  "parse_netstring bs =
     (let ds = takeWhile (\<lambda>c. c \<noteq> CHR '':'') bs;
          rest = dropWhile (\<lambda>c. c \<noteq> CHR '':'') bs
      in if ds = [] \<or> \<not> list_all is_digit ds \<or> rest = [] then None
         else let n = digits_value ds; body = tl rest
              in if length body < Suc n then None
                 else if body ! n \<noteq> CHR '','' then None
                 else Some (take n body, drop (Suc n) body))"

subsection \<open>\<open>json.dumps(obj, ensure_ascii=True)\<close>\<close>

text \<open>
  The values \<open>make_build_request\<close> serialises: \<open>None\<close>, integers, strings, a list
  and dictionaries with string keys. A dictionary keeps its insertion order, so it is an
  association list.
\<close>

datatype json =
    JNull
  | JBool bool
  | JInt int
  | JStr pystr
  | JList "json list"
  | JDict "(pystr \<times> json) list"

text \<open>\<open>sep.join(parts)\<close>.\<close>

fun join :: "pystr \<Rightarrow> pystr list \<Rightarrow> pystr" where
  "join sep [] = []"
| "join sep [x] = x"
| "join sep (x # y # ys) = x @ sep @ join sep (y # ys)"

text \<open>\<open>'{0:04x}'.format(n)\<close> for \<open>n < 0x10000\<close>: four lower-case hexadecimal digits.\<close>

definition hexdigit :: "nat \<Rightarrow> nat" where
  "hexdigit d = (if d < 10 then 48 + d else 87 + d)"

definition hex4 :: "nat \<Rightarrow> pystr" where
  "hex4 n = map hexdigit [n div 4096 mod 16, n div 256 mod 16, n div 16 mod 16, n mod 16]"

text \<open>
  The standard library's \<open>encode_basestring_ascii\<close>, one code point at a time: the
  quote and the backslash are escaped, the control characters with a short escape get it,
  a printable ASCII character (\<open>' '\<close> to \<open>'~'\<close>) stands for itself, and every other code
  point becomes \<open>\uXXXX\<close>, a surrogate pair above the basic plane
  (\<open>s1 = 0xd800 | ((n >> 10) & 0x3ff)\<close>, \<open>s2 = 0xdc00 | (n & 0x3ff)\<close> with
  \<open>n = ord(c) - 0x10000\<close>).
\<close>

definition escape_char :: "nat \<Rightarrow> pystr" where
  "escape_char c =
     (if c = 34 then [92, 34]
      else if c = 92 then [92, 92]
      else if c = 10 then [92, 110]
      else if c = 13 then [92, 114]
      else if c = 9 then [92, 116]
      else if c = 8 then [92, 98]
      else if c = 12 then [92, 102]
      else if 32 \<le> c \<and> c \<le> 126 then [c]
      else if c < 65536 then [92, 117] @ hex4 c
      else let n = c - 65536;
               s1 = or 55296 (and (drop_bit 10 n) 1023);
               s2 = or 56320 (and n 1023)
           in [92, 117] @ hex4 s1 @ [92, 117] @ hex4 s2)"

definition encode_basestring_ascii :: "pystr \<Rightarrow> pystr" where
  "encode_basestring_ascii s = [34] @ concat (map escape_char s) @ [34]"

text \<open>
  \<open>json.dumps\<close> with its default separators \<open>', '\<close> and \<open>': '\<close>.
\<close>

fun json_dumps :: "json \<Rightarrow> pystr" where
  "json_dumps JNull = py ''null''"
| "json_dumps (JBool b) = (if b then py ''true'' else py ''false'')"
| "json_dumps (JInt i) = str_int i"
| "json_dumps (JStr s) = encode_basestring_ascii s"
| "json_dumps (JList xs) = py ''['' @ join (py '', '') (map json_dumps xs) @ py '']''"
| "json_dumps (JDict kvs) =
     py ''{'' @
     join (py '', '')
       (map (\<lambda>kv. encode_basestring_ascii (fst kv) @ py '': '' @ json_dumps (snd kv)) kvs) @
     py ''}''"


subsection \<open>\<open>make_build_request\<close>\<close>

text \<open>The part of \<open>cfg.buildbot\<close> the module reads (the \<open>config\<close> module is external).\<close>

record config =
  buildbot_pr_builders :: "pystr list"
  buildbot_fifoci_builders :: "pystr list"
  buildbot_url :: pystr
  buildbot_jobdir :: pystr

text \<open>
  \<^verbatim>\<open>
  request_dict = {
      'branch': 'refs/pull/%d/head' % pr_id,
      'builderNames': cfg.buildbot.pr_builders,
      'jobid': job_id,
      'baserev': '',
      'patch_level': 0,
      'patch_body': None,
      'who': who,
      'comment': comment,
      'properties': {
          'branchname': 'pr-%d' % pr_id,
          'baserev': baserev,
          'headrev': headrev,
          'shortrev': headrev[:6],
          'pr_id': pr_id,
          'repo': repo,
      },
  }
  \<close>
\<close>

definition request_dict ::
  "config \<Rightarrow> pystr \<Rightarrow> int \<Rightarrow> pystr \<Rightarrow> pystr \<Rightarrow> pystr \<Rightarrow> pystr \<Rightarrow> pystr \<Rightarrow> json" where
  "request_dict cfg repo pr_id job_id baserev headrev who comment =
     JDict
      [(py ''branch'', JStr (py ''refs/pull/'' @ str_int pr_id @ py ''/head'')),
       (py ''builderNames'', JList (map JStr (buildbot_pr_builders cfg))),
       (py ''jobid'', JStr job_id),
       (py ''baserev'', JStr []),
       (py ''patch_level'', JInt 0),
       (py ''patch_body'', JNull),
       (py ''who'', JStr who),
       (py ''comment'', JStr comment),
       (py ''properties'',
        JDict
         [(py ''branchname'', JStr (py ''pr-'' @ str_int pr_id)),
          (py ''baserev'', JStr baserev),
          (py ''headrev'', JStr headrev),
          (py ''shortrev'', JStr (take 6 headrev)),
          (py ''pr_id'', JInt pr_id),
          (py ''repo'', JStr repo)])]"

text \<open>
  \<^verbatim>\<open>
  encoded = json.dumps(request_dict, ensure_ascii=True).encode('ascii')
  version = make_netstring(b'5')
  return version + make_netstring(encoded)
  \<close>
\<close>

definition make_build_request ::
  "config \<Rightarrow> pystr \<Rightarrow> int \<Rightarrow> pystr \<Rightarrow> pystr \<Rightarrow> pystr \<Rightarrow> pystr \<Rightarrow> pystr \<Rightarrow> exc + bytes" where
  "make_build_request cfg repo pr_id job_id baserev headrev who comment =
     (case encode_ascii
             (json_dumps (request_dict cfg repo pr_id job_id baserev headrev who comment)) of
        Inl e \<Rightarrow> Inl e
      | Inr encoded \<Rightarrow>
          (case make_netstring ''5'' of
             Inl e \<Rightarrow> Inl e
           | Inr version \<Rightarrow>
               (case make_netstring encoded of
                  Inl e \<Rightarrow> Inl e
                | Inr body \<Rightarrow> Inr (version @ body))))"

section \<open>The world the workers act on\<close>

text \<open>
  The scalar values a build property can hold. \<open>truthy\<close> is Python's truth test, as
  \<open>not x\<close> and \<open>x and ...\<close> apply it.
\<close>

datatype pyval = PNone | PBool bool | PInt int | PStr pystr

fun truthy :: "pyval \<Rightarrow> bool" where
  "truthy PNone = False"
| "truthy (PBool b) = b"
| "truthy (PInt i) = (i \<noteq> 0)"
| "truthy (PStr s) = (s \<noteq> [])"

text \<open>
  Modelled from the spec: the \<open>events\<close> module is not among the sources. An event is
  the tuple of its constructor's arguments, in the order the calls give them:
  \<open>BuildStatus(repo, hash, shortrev, service, pr, success, pending, url, description)\<close>
  (the specification's BuildStatusEvent: repository, headRevision, shortRevision,
  builderName, pullRequestId, success, pending, detailsUrl, description) and
  \<open>PullRequestFifoCIStatus(repo, hash, service, pr)\<close> (the downstream-CI confirmation).
\<close>

datatype event =
    BuildStatus pyval pyval pyval pystr pyval bool bool pystr pystr
  | PullRequestFifoCIStatus pyval pyval pystr pyval

text \<open>
  A path is the list of the components \<open>os.path.join\<close> was given. The state holds what
  the two workers touch: the events handed to the dispatcher (topic and event, oldest
  first), the directories and the files of the file system, and the names
  \<open>str(uuid.uuid4())\<close> returns, as the sequence of draws still to come.
\<close>

type_synonym path = "pystr list"

record world =
  bus :: "(pystr \<times> event) list"
  dirs :: "path set"
  files :: "path \<rightharpoonup> bytes"
  uuids :: "nat \<Rightarrow> pystr"
  drawn :: nat

text \<open>
  Modelled from the spec: \<open>events.dispatcher.dispatch(topic, evt)\<close> belongs to the absent
  \<open>events\<close> module; the Event Bus is a black box that accepts the event.
\<close>

definition dispatch :: "pystr \<Rightarrow> event \<Rightarrow> world \<Rightarrow> world" where
  "dispatch topic evt w = w\<lparr>bus := bus w @ [(topic, evt)]\<rparr>"

text \<open>\<open>str(uuid.uuid4())\<close>: the next draw.\<close>

definition uuid4 :: "world \<Rightarrow> pystr \<times> world" where
  "uuid4 w = (uuids w (drawn w), w\<lparr>drawn := Suc (drawn w)\<rparr>)"

text \<open>
  \<open>open(path, 'wb').write(data)\<close>: creates or truncates the file. It raises
  \<open>OSError\<close> (FileNotFoundError, IsADirectoryError) when the parent directory does not
  exist or the path is a directory. CPython closes the unreferenced file object at once,
  so the data is in the file when the statement ends.
\<close>

definition open_wb_write :: "path \<Rightarrow> bytes \<Rightarrow> world \<Rightarrow> exc + world" where
  "open_wb_write p data w =
     (if butlast p \<in> dirs w \<and> p \<notin> dirs w
      then Inr (w\<lparr>files := (files w)(p \<mapsto> data)\<rparr>)
      else Inl (Exc ''OSError''))"

text \<open>
  \<open>os.rename(src, dst)\<close> on POSIX: one step that moves the file, replacing a file
  that is at \<open>dst\<close>; \<open>OSError\<close> when \<open>src\<close> does not exist, the parent of \<open>dst\<close> does
  not exist or \<open>dst\<close> is a directory.
\<close>

definition os_rename :: "path \<Rightarrow> path \<Rightarrow> world \<Rightarrow> exc + world" where
  "os_rename src dst w =
     (case files w src of
        None \<Rightarrow> Inl (Exc ''OSError'')
      | Some data \<Rightarrow>
          if butlast dst \<in> dirs w \<and> dst \<notin> dirs w
          then Inr (w\<lparr>files := ((files w)(src := None))(dst \<mapsto> data)\<rparr>)
          else Inl (Exc ''OSError''))"

section \<open>The job submitter (buildbot.py)\<close>

text \<open>
  \<^verbatim>\<open>
  def send_build_request(build_request):
      path = os.path.join(cfg.buildbot.jobdir, 'tmp', str(uuid.uuid4()))
      open(path, 'wb').write(build_request)
      final_path = os.path.join(cfg.buildbot.jobdir, 'new', str(uuid.uuid4()))
      os.rename(path, final_path)
      logging.info('Sent build request: %r', final_path)
  \<close>
  A stateful operation returns the exception it raised, if any, and the state it left.
\<close>

definition send_build_request :: "config \<Rightarrow> bytes \<Rightarrow> world \<Rightarrow> exc option \<times> world" where
  "send_build_request cfg build_request w =
     (let (name1, w1) = uuid4 w;
          path = [buildbot_jobdir cfg, py ''tmp'', name1]
      in case open_wb_write path build_request w1 of
           Inl e \<Rightarrow> (Some e, w1)
         | Inr w2 \<Rightarrow>
             (let (name2, w3) = uuid4 w2;
                  final_path = [buildbot_jobdir cfg, py ''new'', name2]
              in case os_rename path final_path w3 of
                   Inl e \<Rightarrow> (Some e, w3)
                 | Inr w4 \<Rightarrow> (None, w4)))"

section \<open>The dispatch worker (buildbot.py, PullRequestBuilder)\<close>

text \<open>The queue item \<open>(in_behalf_of, trusted, repo, pr_id)\<close>.\<close>

record trigger =
  in_behalf_of :: pystr
  trusted :: bool
  repo :: pystr
  pr_id :: int

text \<open>
  What \<open>run\<close> reads of the pull request it fetched: \<open>pr['mergeable']\<close> (true, false or
  null), \<open>pr['mergeable_state']\<close>, \<open>pr['base']['sha']\<close>, \<open>pr['head']['sha']\<close>. The
  source-control host is a function from the repository and the number to this record,
  or to the exception that \<open>requests.get(...).json()\<close> or one of the four lookups
  raises (lines 74 to 80).
\<close>

record pull =
  mergeable :: "bool option"
  mergeable_state :: pystr
  base_sha :: pystr
  head_sha :: pystr

type_synonym github = "pystr \<Rightarrow> int \<Rightarrow> exc + pull"

text \<open>
  The call of lines 111 to 114:
  \<^verbatim>\<open>
  req = make_build_request(
      repo, pr_id, '%d-%s' % (pr_id, head_sha[:6]), base_sha, head_sha,
      'Central (on behalf of: %s)' % in_behalf_of,
      'Auto build for PR #%d (%s).' % (pr_id, head_sha))
  \<close>
\<close>

definition job_id_of :: "int \<Rightarrow> pystr \<Rightarrow> pystr" where
  "job_id_of n sha = str_int n @ py ''-'' @ take 6 sha"

definition build_request_for :: "config \<Rightarrow> trigger \<Rightarrow> pull \<Rightarrow> exc + bytes" where
  "build_request_for cfg t pr =
     make_build_request cfg (repo t) (pr_id t) (job_id_of (pr_id t) (head_sha pr))
       (base_sha pr) (head_sha pr)
       (py ''Central (on behalf of: '' @ in_behalf_of t @ py '')'')
       (py ''Auto build for PR #'' @ str_int (pr_id t) @ py '' ('' @ head_sha pr @ py '').'')"

text \<open>
  One turn of the \<open>while True\<close> loop of \<open>PullRequestBuilder.run\<close>, from the fetch to
  \<open>send_build_request\<close>; \<open>continue\<close> ends the turn without an exception.
\<close>

definition process_trigger ::
  "config \<Rightarrow> github \<Rightarrow> trigger \<Rightarrow> world \<Rightarrow> exc option \<times> world" where
  "process_trigger cfg gh t w =
     (case gh (repo t) (pr_id t) of
        Inl e \<Rightarrow> (Some e, w)
      | Inr pr \<Rightarrow>
          (let shortrev = take 6 (head_sha pr) in
           if \<not> trusted t then
             (None,
              dispatch (py ''prbuilder'')
                (BuildStatus (PStr (repo t)) (PStr (head_sha pr)) (PStr shortrev)
                   (py ''default'') (PInt (pr_id t)) False False []
                   (py ''PR not built because '' @ in_behalf_of t @
                    py '' is not auto-trusted.''))
                w)
           else if mergeable pr = Some False then
             (None,
              dispatch (py ''prbuilder'')
                (BuildStatus (PStr (repo t)) (PStr (head_sha pr)) (PStr shortrev)
                   (py ''default'') (PInt (pr_id t)) False False []
                   (py ''PR cannot be merged, please rebase.''))
                w)
           else
             (let w1 =
                    dispatch (py ''prbuilder'')
                      (BuildStatus (PStr (repo t)) (PStr (head_sha pr)) (PStr shortrev)
                         (py ''default'') (PInt (pr_id t)) True False []
                         (py ''Very basic checks passed, handed off to Buildbot.''))
                      w;
                  w2 =
                    foldl
                      (\<lambda>w' builder.
                         dispatch (py ''prbuilder'')
                           (BuildStatus (PStr (repo t)) (PStr (head_sha pr)) (PStr shortrev)
                              builder (PInt (pr_id t)) False True (buildbot_url cfg)
                              (py ''Auto build pending''))
                           w')
                      w1 (buildbot_pr_builders cfg)
              in case build_request_for cfg t pr of
                   Inl e \<Rightarrow> (Some e, w2)
                 | Inr req \<Rightarrow> send_build_request cfg req w2)))"

text \<open>
  How a call of a long-running function ends: it returns, it raises, or it blocks for
  ever (here: in \<open>queue.get()\<close> on an empty queue, no other thread being modelled).
\<close>

datatype outcome = Returned | Raised exc | Blocked

text \<open>
  \<open>PullRequestBuilder.run\<close>: the loop takes the triggers in arrival order. It has no
  \<open>try\<close>: an exception of a turn leaves the loop, the trigger already taken off the
  queue.
\<close>

fun pr_builder_run ::
  "config \<Rightarrow> github \<Rightarrow> trigger list \<times> world \<Rightarrow> outcome \<times> (trigger list \<times> world)" where
  "pr_builder_run cfg gh ([], w) = (Blocked, ([], w))"
| "pr_builder_run cfg gh (t # queue, w) =
     (case process_trigger cfg gh t w of
        (None, w') \<Rightarrow> pr_builder_run cfg gh (queue, w')
      | (Some e, w') \<Rightarrow> (Raised e, (queue, w')))"

section \<open>The supervised task runner (utils.py, DaemonThread)\<close>

text \<open>
  \<^verbatim>\<open>
  def run(self):
      while True:
          try:
              print('Running %s' % self.daemon_target)
              self.daemon_target(*self.args, **self.kwargs)
          except Exception:
              logging.exception('Daemon thread %r failed', self)
              time.sleep(1)
  \<close>
  The loop never ends by itself, so it is run for a number of turns. What the thread
  does is recorded: \<open>Running\<close> for the \<open>print\<close> and the call of the target that follows
  it, \<open>Logged e\<close> for \<open>logging.exception\<close>, \<open>Slept n\<close> for \<open>time.sleep(n)\<close>. After the
  turns the thread is \<open>Alive\<close> (at the head of the loop, about to call the target again),
  \<open>Waiting\<close> (inside a call that blocks) or \<open>Died e\<close> (an exception that
  \<open>except Exception\<close> does not catch ended the thread).
\<close>

datatype sup_event = Running | Logged exc | Slept nat

datatype thread_state = Alive | Waiting | Died exc

fun daemon_run ::
  "nat \<Rightarrow> ('s \<Rightarrow> outcome \<times> 's) \<Rightarrow> 's \<Rightarrow> thread_state \<times> sup_event list \<times> 's" where
  "daemon_run 0 daemon_target s = (Alive, [], s)"
| "daemon_run (Suc n) daemon_target s =
     (case daemon_target s of
        (Returned, s') \<Rightarrow>
          (case daemon_run n daemon_target s' of
             (st, evs, s'') \<Rightarrow> (st, Running # evs, s''))
      | (Raised e, s') \<Rightarrow>
          if is_Exception e then
            (case daemon_run n daemon_target s' of
               (st, evs, s'') \<Rightarrow> (st, [Running, Logged e, Slept 1] @ evs, s''))
          else (Died e, [Running], s')
      | (Blocked, s') \<Rightarrow> (Waiting, [Running], s'))"

text \<open>
  A zero-argument function whose calls end as a script says: call number \<open>k\<close> (from 0)
  ends as \<open>script k\<close>. Its state is the number of calls made so far.
\<close>

definition scripted :: "(nat \<Rightarrow> outcome) \<Rightarrow> nat \<Rightarrow> outcome \<times> nat" where
  "scripted script k = (script k, Suc k)"

section \<open>The status collector (buildbot.py, BuildStatusCollector)\<close>

text \<open>
  The raw result: \<open>evt.builder.name\<close>, \<open>evt.properties\<close> (each value a list),
  \<open>evt.complete\<close>, \<open>evt.results\<close>, \<open>evt.url\<close>.
\<close>

record raw_result =
  builder_name :: pystr
  properties :: "(pystr \<times> pyval list) list"
  complete :: bool
  results :: int
  url :: pystr

text \<open>
  \<open>{k: v[0] for k, v in evt.properties.items()}\<close>: \<open>v[0]\<close> raises \<open>IndexError\<close> on an
  empty list. The keys of a dictionary are distinct; the collapsed dictionary is read
  with \<open>map_of\<close>.
\<close>

fun collapse :: "(pystr \<times> pyval list) list \<Rightarrow> exc + (pystr \<times> pyval) list" where
  "collapse [] = Inr []"
| "collapse ((k, v) # kvs) =
     (case v of
        [] \<Rightarrow> Inl (Exc ''IndexError'')
      | x # _ \<Rightarrow>
          (case collapse kvs of
             Inl e \<Rightarrow> Inl e
           | Inr props \<Rightarrow> Inr ((k, x) # props)))"

text \<open>
  \<open>utils.ObjectLike\<close>: \<open>name in props\<close> is \<open>name in self.dictlike\<close>, and
  \<open>props.name\<close> is \<open>self.dictlike.get(name)\<close>, which is \<open>None\<close> for an absent key (no
  value here is a dictionary, so the wrapping branch of \<open>__getattr__\<close> is never taken).
\<close>

definition contains :: "(pystr \<times> pyval) list \<Rightarrow> pystr \<Rightarrow> bool" where
  "contains dictlike name = (map_of dictlike name \<noteq> None)"

definition getattr :: "(pystr \<times> pyval) list \<Rightarrow> pystr \<Rightarrow> pyval" where
  "getattr dictlike name = (case map_of dictlike name of None \<Rightarrow> PNone | Some val \<Rightarrow> val)"

text \<open>
  One turn of the loop of \<open>BuildStatusCollector.run\<close>. The \<open>for\<close> loop with its
  \<open>break\<close> computes whether all three required keys are present. The locals \<open>repo\<close>
  and \<open>pr_id\<close> are written \<open>repo'\<close> and \<open>pr_id'\<close>, the plain names being fields of a
  trigger.
\<close>

definition process_result :: "config \<Rightarrow> raw_result \<Rightarrow> world \<Rightarrow> exc option \<times> world" where
  "process_result cfg evt w =
     (let builder = builder_name evt in
      case collapse (properties evt) of
        Inl e \<Rightarrow> (Some e, w)
      | Inr props \<Rightarrow>
          if \<not> list_all (contains props) [py ''headrev'', py ''repo'', py ''shortrev'']
          then (None, w)
          else
            (let headrev = getattr props (py ''headrev'');
                 repo' = getattr props (py ''repo'');
                 pr_id' = getattr props (py ''pr_id'');
                 shortrev = getattr props (py ''shortrev'');
                 pending = (\<not> complete evt);
                 success = (results evt = 0 \<or> results evt = 1)
             in if builder \<in> set (buildbot_pr_builders cfg) then
                  (let description =
                         (if pending then py ''Auto build in progress on builder '' @ builder
                          else if success then py ''Build succeeded on builder '' @ builder
                          else py ''Build failed on builder '' @ builder)
                   in (None,
                       dispatch (py ''buildbot'')
                         (BuildStatus repo' headrev shortrev builder pr_id' success pending
                            (url evt) description)
                         w))
                else if truthy pr_id' \<and> builder \<in> set (buildbot_fifoci_builders cfg) \<and> success
                then
                  (None,
                   dispatch (py ''buildbot'') (PullRequestFifoCIStatus repo' headrev builder pr_id') w)
                else (None, w)))"

fun collector_run ::
  "config \<Rightarrow> raw_result list \<times> world \<Rightarrow> outcome \<times> (raw_result list \<times> world)" where
  "collector_run cfg ([], w) = (Blocked, ([], w))"
| "collector_run cfg (evt # queue, w) =
     (case process_result cfg evt w of
        (None, w') \<Rightarrow> collector_run cfg (queue, w')
      | (Some e, w') \<Rightarrow> (Raised e, (queue, w')))"

section \<open>Example inputs\<close>

text \<open>A configuration with the two pull-request builders of the specification's examples.\<close>

definition example_cfg :: config where
  "example_cfg =
     \<lparr>buildbot_pr_builders = [py ''linux'', py ''win''],
      buildbot_fifoci_builders = [py ''fifoci''],
      buildbot_url = py ''https://buildbot.example/'',
      buildbot_jobdir = py ''/jobs''\<rparr>"

text \<open>
  A world with the job directory \<open>/jobs\<close> and its \<open>tmp\<close> and \<open>new\<close> subdirectories, no
  file and no event yet; the draws of \<open>uuid4\<close> are \<open>uuid-0\<close>, \<open>uuid-1\<close>, ...
\<close>

definition example_world :: world where
  "example_world =
     \<lparr>bus = [],
      dirs = {[py ''/jobs''], [py ''/jobs'', py ''tmp''], [py ''/jobs'', py ''new'']},
      files = Map.empty,
      uuids = (\<lambda>k. py ''uuid-'' @ str_nat k),
      drawn = 0\<rparr>"

text \<open>
  A source-control host that knows two pull requests, number 7 (mergeable) and number 8
  (not mergeable), and cannot be reached for any other; and the trigger that \<open>alice\<close>
  raises for pull request \<open>n\<close> of \<open>o/r\<close>.
\<close>

definition example_github :: github where
  "example_github r n =
     (if n = 7 then
        Inr \<lparr>mergeable = Some True, mergeable_state = py ''clean'',
             base_sha = py ''ba5eba5e00'', head_sha = py ''abcdef0123''\<rparr>
      else if n = 8 then
        Inr \<lparr>mergeable = Some False, mergeable_state = py ''dirty'',
             base_sha = py ''ba5eba5e00'', head_sha = py ''0123456789''\<rparr>
      else Inl (Exc ''ConnectionError''))"

definition example_trigger :: "bool \<Rightarrow> int \<Rightarrow> trigger" where
  "example_trigger tr n =
     \<lparr>in_behalf_of = py ''alice'', trusted = tr, repo = py ''o/r'', pr_id = n\<rparr>"

text \<open>
  A function that raises \<open>RuntimeError\<close> on its first two calls and returns normally on
  every later one.
\<close>

definition flaky :: "nat \<Rightarrow> outcome" where
  "flaky k = (if k < 2 then Raised (Exc ''RuntimeError'') else Returned)"

text \<open>
  A raw result of a builder, with the given properties, completion flag and result code;
  and the three required properties as the build farm sends them, each a list of the
  value and its source.
\<close>

definition example_result :: "pystr \<Rightarrow> (pystr \<times> pyval list) list \<Rightarrow> bool \<Rightarrow> int \<Rightarrow> raw_result" where
  "example_result b ps c r =
     \<lparr>builder_name = b, properties = ps, complete = c, results = r,
      url = py ''https://buildbot.example/b/1''\<rparr>"

definition example_properties :: "(pystr \<times> pyval list) list" where
  "example_properties =
     [(py ''headrev'', [PStr (py ''abcdef0123''), PStr (py ''Build'')]),
      (py ''repo'', [PStr (py ''o/r''), PStr (py ''Build'')]),
      (py ''shortrev'', [PStr (py ''abcdef''), PStr (py ''Build'')])]"

section \<open>Properties of the wire encoder\<close>

lemma str_nat_digits: "list_all (\<lambda>c. 48 \<le> c \<and> c \<le> 57) (str_nat n)"
proof (induction n rule: str_nat.induct)
  case (1 n)
  show ?case
  proof (cases "n < 10")
    case True
    then show ?thesis by (subst str_nat.simps) simp
  next
    case False
    have "n mod 10 < 10" by simp
    then have "48 + n mod 10 \<le> 57" by linarith
    with False 1 show ?thesis by (subst str_nat.simps) simp
  qed
qed

lemma str_nat_nonempty: "str_nat n \<noteq> []"
  by (subst str_nat.simps) simp

lemma encode_ascii_str_nat: "encode_ascii (str_nat n) = Inr (map char_of (str_nat n))"
proof -
  have "list_all (\<lambda>c. c < 128) (str_nat n)"
    using str_nat_digits [of n] by (auto simp: list_all_iff)
  then show ?thesis by (simp add: encode_ascii_def)
qed

lemma char_of_digit:
  assumes "48 \<le> (x::nat)" and "x \<le> 57"
  shows "is_digit (char_of x)" and "char_of x \<noteq> CHR '':''" and "char_of x \<noteq> CHR '',''"
proof -
  from assms have rt: "(of_char (char_of x) :: nat) = x" by simp
  with assms show "is_digit (char_of x)" by (simp add: is_digit_def)
  show "char_of x \<noteq> CHR '':''"
  proof
    assume "char_of x = CHR '':''"
    then have "(of_char (char_of x) :: nat) = of_char CHR '':''" by simp
    with rt assms show False by simp
  qed
  show "char_of x \<noteq> CHR '',''"
  proof
    assume "char_of x = CHR '',''"
    then have "(of_char (char_of x) :: nat) = of_char CHR '',''" by simp
    with rt assms show False by simp
  qed
qed

lemma digit_bytes:
  assumes "list_all (\<lambda>c. 48 \<le> c \<and> c \<le> 57) (xs :: nat list)"
  shows "list_all is_digit (map char_of xs)" and "CHR '':'' \<notin> set (map char_of xs)"
    and "CHR '','' \<notin> set (map char_of xs)"
proof -
  have d: "48 \<le> x \<and> x \<le> 57" if "x \<in> set xs" for x
    using assms that by (simp add: list_all_iff)
  show "list_all is_digit (map char_of xs)"
    using d char_of_digit(1) by (simp add: list_all_iff)
  show "CHR '':'' \<notin> set (map char_of xs)"
    using d char_of_digit(2) by fastforce
  show "CHR '','' \<notin> set (map char_of xs)"
    using d char_of_digit(3) by fastforce
qed

lemma takeWhile_header:
  assumes "CHR '':'' \<notin> set hdr"
  shows "takeWhile (\<lambda>c. c \<noteq> CHR '':'') (hdr @ CHR '':'' # xs) = hdr"
    and "dropWhile (\<lambda>c. c \<noteq> CHR '':'') (hdr @ CHR '':'' # xs) = CHR '':'' # xs"
  using assms by (induction hdr) auto

lemma parse_framed:
  assumes "list_all is_digit hdr" and "hdr \<noteq> []" and "CHR '':'' \<notin> set hdr"
    and "digits_value hdr = length s"
  shows "parse_netstring (hdr @ '':'' @ s @ '','' @ rest) = Some (s, rest)"
  using assms by (simp add: parse_netstring_def takeWhile_header nth_append)

lemma digits_value_snoc:
  "digits_value (ds @ [c]) = 10 * digits_value ds + (of_char c - 48)"
  by (simp add: digits_value_def)

lemma digits_value_str_nat: "digits_value (map char_of (str_nat n)) = n"
proof (induction n rule: str_nat.induct)
  case (1 n)
  show ?case
  proof (cases "n < 10")
    case True
    then show ?thesis by (subst str_nat.simps) (simp add: digits_value_def)
  next
    case False
    with 1 have ih: "digits_value (map char_of (str_nat (n div 10))) = n div 10" by simp
    have "n mod 10 < 10" by simp
    then have m: "(48 + n mod 10) mod 256 = 48 + n mod 10" by simp
    from False have "str_nat n = str_nat (n div 10) @ [48 + n mod 10]"
      by (subst str_nat.simps) simp
    then show ?thesis using ih m by (simp add: digits_value_snoc)
  qed
qed

text \<open>
  C9 (amended). For every byte sequence \<open>s\<close>, \<open>make_netstring s\<close> does not raise and
  is the decimal length of \<open>s\<close> in ASCII digits, a colon, \<open>s\<close> itself and a comma,
  nothing else. The length prefix and the colon hold no comma, and the reader (length up
  to the colon, that many payload bytes, a comma) gives back \<open>s\<close> exactly, with whatever
  followed the netstring. Commas inside the payload are carried as they are.
\<close>

theorem make_netstring_round_trip:
  "case make_netstring s of
     Inl e \<Rightarrow> False
   | Inr out \<Rightarrow>
       out = map char_of (str_nat (length s)) @ '':'' @ s @ '',''
       \<and> list_all is_digit (map char_of (str_nat (length s)))
       \<and> digits_value (map char_of (str_nat (length s))) = length s
       \<and> CHR '','' \<notin> set (map char_of (str_nat (length s)) @ '':'')
       \<and> parse_netstring (out @ rest) = Some (s, rest)"
proof -
  let ?hdr = "map char_of (str_nat (length s))"
  have out: "make_netstring s = Inr (?hdr @ '':'' @ s @ '','')"
    by (simp add: make_netstring_def encode_ascii_str_nat)
  have dig: "list_all is_digit ?hdr" and nocolon: "CHR '':'' \<notin> set ?hdr"
    and nocomma: "CHR '','' \<notin> set ?hdr"
    using digit_bytes [OF str_nat_digits] by blast+
  have ne: "?hdr \<noteq> []" by (simp add: str_nat_nonempty)
  have val: "digits_value ?hdr = length s" by (rule digits_value_str_nat)
  have "parse_netstring (?hdr @ '':'' @ s @ '','' @ rest) = Some (s, rest)"
    by (rule parse_framed [OF dig ne nocolon val])
  with out dig val nocomma show ?thesis by simp
qed

theorem make_netstring_round_trip_witness:
  "make_netstring ''a,b'' = Inr ''3:a,b,''
   \<and> parse_netstring (''3:a,b,'' @ ''xyz'') = Some (''a,b'', ''xyz'')"
proof -
  have out: "make_netstring ''a,b'' = Inr ''3:a,b,''" by code_simp
  show ?thesis
    using make_netstring_round_trip [of "''a,b''" "''xyz''"] by (simp add: out)
qed

text \<open>
  C9 as stated fails in its last part: a comma of the payload stands in the output
  before the payload ends. For \<open>b'a,b'\<close> the output is \<open>b'3:a,b,'\<close>; the payload ends at
  index 5 and the byte at index 3 is a comma.
\<close>

theorem make_netstring_comma_counterexample:
  "make_netstring ''a,b'' = Inr ''3:a,b,''
   \<and> (3::nat) < length ''3:'' + length ''a,b''
   \<and> ''3:a,b,'' ! 3 = CHR '',''"
  by code_simp

lemma ascii_str_nat: "ascii (str_nat n)"
  using str_nat_digits [of n] by (auto simp: list_all_iff)

lemma ascii_str_int: "ascii (str_int i)"
  by (simp add: str_int_def ascii_str_nat)

lemma ascii_hex4: "ascii (hex4 n)"
proof -
  have "hexdigit d < 128" if "d < 16" for d
    using that by (simp add: hexdigit_def)
  then show ?thesis by (simp add: hex4_def)
qed

lemma ascii_escape_char: "ascii (escape_char c)"
  by (simp add: escape_char_def ascii_hex4 Let_def)

lemma ascii_encode_basestring: "ascii (encode_basestring_ascii s)"
  by (induction s) (simp_all add: encode_basestring_ascii_def ascii_escape_char)

lemma ascii_join: "ascii sep \<Longrightarrow> list_all ascii parts \<Longrightarrow> ascii (join sep parts)"
  by (induction sep parts rule: join.induct) simp_all

lemma ascii_json_dumps: "ascii (json_dumps j)"
proof (induction j)
  case (JList xs)
  then have "list_all ascii (map json_dumps xs)"
    by (simp add: list_all_iff)
  then show ?case by (simp add: ascii_join py_def)
next
  case (JDict kvs)
  have each: "ascii (encode_basestring_ascii (fst kv) @ py '': '' @ json_dumps (snd kv))"
    if "kv \<in> set kvs" for kv
  proof -
    have "snd kv \<in> Basic_BNFs.snds kv" by (cases kv) simp
    with JDict that have "ascii (json_dumps (snd kv))" by blast
    then show ?thesis by (simp add: ascii_encode_basestring py_def)
  qed
  have "list_all ascii
          (map (\<lambda>kv. encode_basestring_ascii (fst kv) @ py '': '' @ json_dumps (snd kv)) kvs)"
    using each by (simp add: list_all_iff)
  then show ?case by (simp add: ascii_join py_def)
qed (simp_all add: py_def ascii_str_int ascii_encode_basestring)

lemma make_netstring_eq:
  "make_netstring s = Inr (map char_of (str_nat (length s)) @ '':'' @ s @ '','')"
  by (simp add: make_netstring_def encode_ascii_str_nat)

lemma make_netstring_5: "make_netstring ''5'' = Inr ''1:5,''"
  by code_simp

lemma make_build_request_eq:
  "make_build_request cfg r n job baserev headrev who comment =
     (let payload = map char_of (json_dumps (request_dict cfg r n job baserev headrev who comment))
      in Inr (''1:5,'' @ map char_of (str_nat (length payload)) @ '':'' @ payload @ '',''))"
  by (simp add: make_build_request_def encode_ascii_def ascii_json_dumps make_netstring_5)
    (simp add: make_netstring_eq)



section \<open>Properties of the job submitter\<close>

lemma send_build_request_cases:
  "send_build_request cfg encoded w =
     (let tmp = [buildbot_jobdir cfg, py ''tmp'', uuids w (drawn w)];
          final = [buildbot_jobdir cfg, py ''new'', uuids w (Suc (drawn w))]
      in if butlast tmp \<in> dirs w \<and> tmp \<notin> dirs w then
           if butlast final \<in> dirs w \<and> final \<notin> dirs w then
             (None, w\<lparr>drawn := Suc (Suc (drawn w)),
                       files := ((files w)(tmp := None))(final \<mapsto> encoded)\<rparr>)
           else (Some (Exc ''OSError''),
                 w\<lparr>drawn := Suc (Suc (drawn w)), files := (files w)(tmp \<mapsto> encoded)\<rparr>)
         else (Some (Exc ''OSError''), w\<lparr>drawn := Suc (drawn w)\<rparr>))"
  by (simp add: send_build_request_def uuid4_def open_wb_write_def os_rename_def Let_def)




section \<open>Properties of the dispatch worker\<close>

lemma foldl_dispatch:
  "foldl (\<lambda>w' b. dispatch topic (f b) w') w bs = w\<lparr>bus := bus w @ map (\<lambda>b. (topic, f b)) bs\<rparr>"
  by (induction bs arbitrary: w) (simp_all add: dispatch_def)

lemma build_request_for_returns: "\<exists>req. build_request_for cfg t pr = Inr req"
  by (simp add: build_request_for_def make_build_request_eq Let_def)

lemma send_build_request_bus: "bus (snd (send_build_request cfg req w)) = bus w"
  by (simp add: send_build_request_cases Let_def)

text \<open>
  C1. For a trusted trigger whose pull request was fetched: when \<open>mergeable\<close> is
  \<open>False\<close> the turn ends without an exception, having dispatched exactly one event
  (builder \<open>default\<close>, success false, pending false, "PR cannot be merged, please
  rebase.") and changed nothing else, so no job was submitted. When \<open>mergeable\<close> is
  \<open>True\<close> or \<open>None\<close>, the request is encoded without an exception and the turn is one
  call of \<open>send_build_request\<close> made after the events were dispatched: first the
  aggregate event (success true, pending false), then one placeholder (success false,
  pending true, "Auto build pending") for each configured builder, in the configured
  order; with two builders these are exactly three events.
\<close>

theorem trusted_trigger_events:
  assumes "trusted t" and "gh (repo t) (pr_id t) = Inr pr"
  shows
    "let status = (\<lambda>builder success pending url description.
           (py ''prbuilder'',
            BuildStatus (PStr (repo t)) (PStr (head_sha pr)) (PStr (take 6 (head_sha pr)))
              builder (PInt (pr_id t)) success pending url description));
         rejected = status (py ''default'') False False [] (py ''PR cannot be merged, please rebase.'');
         passed = status (py ''default'') True False []
                    (py ''Very basic checks passed, handed off to Buildbot.'');
         placeholder = (\<lambda>builder. status builder False True (buildbot_url cfg) (py ''Auto build pending''))
     in (mergeable pr = Some False \<longrightarrow>
           process_trigger cfg gh t w = (None, w\<lparr>bus := bus w @ [rejected]\<rparr>))
        \<and> (mergeable pr \<noteq> Some False \<longrightarrow>
             (\<exists>req. build_request_for cfg t pr = Inr req
                \<and> process_trigger cfg gh t w =
                    send_build_request cfg req
                      (w\<lparr>bus := bus w @ passed # map placeholder (buildbot_pr_builders cfg)\<rparr>))
             \<and> bus (snd (process_trigger cfg gh t w)) =
                 bus w @ passed # map placeholder (buildbot_pr_builders cfg)
             \<and> (\<forall>b1 b2. buildbot_pr_builders cfg = [b1, b2] \<longrightarrow>
                   bus (snd (process_trigger cfg gh t w)) =
                   bus w @ [passed, placeholder b1, placeholder b2]))"
proof -
  obtain req where req: "build_request_for cfg t pr = Inr req"
    using build_request_for_returns by blast
  show ?thesis
    using assms req
    by (simp add: process_trigger_def Let_def foldl_dispatch send_build_request_bus)
      (simp add: dispatch_def)
qed

theorem trusted_trigger_events_witness:
  "trusted (example_trigger True 7)
   \<and> bus (snd (process_trigger example_cfg example_github (example_trigger True 7) example_world)) =
       [(py ''prbuilder'',
         BuildStatus (PStr (py ''o/r'')) (PStr (py ''abcdef0123'')) (PStr (py ''abcdef''))
           (py ''default'') (PInt 7) True False []
           (py ''Very basic checks passed, handed off to Buildbot.'')),
        (py ''prbuilder'',
         BuildStatus (PStr (py ''o/r'')) (PStr (py ''abcdef0123'')) (PStr (py ''abcdef''))
           (py ''linux'') (PInt 7) False True (py ''https://buildbot.example/'')
           (py ''Auto build pending'')),
        (py ''prbuilder'',
         BuildStatus (PStr (py ''o/r'')) (PStr (py ''abcdef0123'')) (PStr (py ''abcdef''))
           (py ''win'') (PInt 7) False True (py ''https://buildbot.example/'')
           (py ''Auto build pending''))]
   \<and> fst (process_trigger example_cfg example_github (example_trigger True 7) example_world) = None
   \<and> files (snd (process_trigger example_cfg example_github (example_trigger True 7) example_world))
        [py ''/jobs'', py ''new'', py ''uuid-1''] \<noteq> None
   \<and> process_trigger example_cfg example_github (example_trigger True 8) example_world =
       (None,
        example_world\<lparr>bus :=
          [(py ''prbuilder'',
            BuildStatus (PStr (py ''o/r'')) (PStr (py ''0123456789'')) (PStr (py ''012345''))
              (py ''default'') (PInt 8) False False []
              (py ''PR cannot be merged, please rebase.''))]\<rparr>)"
proof -
  let ?pr7 = "\<lparr>mergeable = Some True, mergeable_state = py ''clean'',
           base_sha = py ''ba5eba5e00'', head_sha = py ''abcdef0123''\<rparr>"
  let ?pr8 = "\<lparr>mergeable = Some False, mergeable_state = py ''dirty'',
           base_sha = py ''ba5eba5e00'', head_sha = py ''0123456789''\<rparr>"
  have g7: "example_github (repo (example_trigger True 7)) (pr_id (example_trigger True 7)) =
      Inr ?pr7"
    by (simp add: example_github_def example_trigger_def)
  have g8: "example_github (repo (example_trigger True 8)) (pr_id (example_trigger True 8)) =
      Inr ?pr8"
    by (simp add: example_github_def example_trigger_def)
  have tr: "trusted (example_trigger True 7)" "trusted (example_trigger True 8)"
    by (simp_all add: example_trigger_def)
  have bus0: "bus example_world = []"
    by (simp add: example_world_def)
  have sh: "take 6 (py ''abcdef0123'') = py ''abcdef''" "take 6 (py ''0123456789'') = py ''012345''"
    by (simp_all add: py_def)
  have dirs: "[buildbot_jobdir example_cfg, py ''tmp''] \<in> dirs example_world"
    "[buildbot_jobdir example_cfg, py ''new''] \<in> dirs example_world"
    "[buildbot_jobdir example_cfg, py ''tmp'', py ''uuid-0''] \<notin> dirs example_world"
    "[buildbot_jobdir example_cfg, py ''new'', py ''uuid-1''] \<notin> dirs example_world"
    by (simp_all add: example_cfg_def example_world_def py_def)
  have u: "uuids example_world (drawn example_world) = py ''uuid-0''"
    "uuids example_world (Suc (drawn example_world)) = py ''uuid-1''"
    by (simp_all add: example_world_def str_nat.simps py_def)
  have j: "buildbot_jobdir example_cfg = py ''/jobs''"
    by (simp add: example_cfg_def)
  note at7 = trusted_trigger_events [where t = "example_trigger True 7" and gh = example_github
      and pr = ?pr7 and cfg = example_cfg and w = example_world]
  note at8 = trusted_trigger_events [where t = "example_trigger True 8" and gh = example_github
      and pr = ?pr8 and cfg = example_cfg and w = example_world]
  have "mergeable ?pr7 \<noteq> Some False" by simp
  with tr g7 at7 obtain r bus' where
    "process_trigger example_cfg example_github (example_trigger True 7) example_world =
       send_build_request example_cfg r (example_world\<lparr>bus := bus'\<rparr>)"
    unfolding Let_def by blast
  then have submitted:
    "fst (process_trigger example_cfg example_github (example_trigger True 7) example_world) = None
     \<and> files (snd (process_trigger example_cfg example_github (example_trigger True 7)
            example_world)) [py ''/jobs'', py ''new'', py ''uuid-1''] \<noteq> None"
    using dirs by (simp add: send_build_request_cases Let_def u) (simp add: j)
  have events:
    "bus (snd (process_trigger example_cfg example_github (example_trigger True 7) example_world)) =
       [(py ''prbuilder'',
         BuildStatus (PStr (py ''o/r'')) (PStr (py ''abcdef0123'')) (PStr (py ''abcdef''))
           (py ''default'') (PInt 7) True False []
           (py ''Very basic checks passed, handed off to Buildbot.'')),
        (py ''prbuilder'',
         BuildStatus (PStr (py ''o/r'')) (PStr (py ''abcdef0123'')) (PStr (py ''abcdef''))
           (py ''linux'') (PInt 7) False True (py ''https://buildbot.example/'')
           (py ''Auto build pending'')),
        (py ''prbuilder'',
         BuildStatus (PStr (py ''o/r'')) (PStr (py ''abcdef0123'')) (PStr (py ''abcdef''))
           (py ''win'') (PInt 7) False True (py ''https://buildbot.example/'')
           (py ''Auto build pending''))]
     \<and> process_trigger example_cfg example_github (example_trigger True 8) example_world =
       (None,
        example_world\<lparr>bus :=
          [(py ''prbuilder'',
            BuildStatus (PStr (py ''o/r'')) (PStr (py ''0123456789'')) (PStr (py ''012345''))
              (py ''default'') (PInt 8) False False []
              (py ''PR cannot be merged, please rebase.''))]\<rparr>)"
    using at7 at8
    by (simp add: Let_def tr g7 g8 bus0 sh) (simp add: example_trigger_def example_cfg_def)
  from tr(1) events submitted show ?thesis by simp
qed

text \<open>
  C2 (amended). For an untrusted trigger whose pull request was fetched, the turn
  dispatches exactly one event (builder \<open>default\<close>, success false, pending false,
  "PR not built because <requester> is not auto-trusted.") and changes nothing else: no
  job is submitted. When the fetch raises, the turn ends with that exception and the
  world is unchanged: no event, and no job either.
\<close>

theorem untrusted_trigger_events:
  assumes "\<not> trusted t"
  shows
    "case gh (repo t) (pr_id t) of
       Inl e \<Rightarrow> process_trigger cfg gh t w = (Some e, w)
     | Inr pr \<Rightarrow>
         process_trigger cfg gh t w =
           (None,
            w\<lparr>bus := bus w @
              [(py ''prbuilder'',
                BuildStatus (PStr (repo t)) (PStr (head_sha pr)) (PStr (take 6 (head_sha pr)))
                  (py ''default'') (PInt (pr_id t)) False False []
                  (py ''PR not built because '' @ in_behalf_of t @
                   py '' is not auto-trusted.''))]\<rparr>)"
  using assms by (simp add: process_trigger_def dispatch_def split: sum.splits)

theorem untrusted_trigger_events_witness:
  "\<not> trusted (example_trigger False 7)
   \<and> process_trigger example_cfg example_github (example_trigger False 7) example_world =
       (None,
        example_world\<lparr>bus :=
          [(py ''prbuilder'',
            BuildStatus (PStr (py ''o/r'')) (PStr (py ''abcdef0123'')) (PStr (py ''abcdef''))
              (py ''default'') (PInt 7) False False []
              (py ''PR not built because alice is not auto-trusted.''))]\<rparr>)"
proof -
  have tr: "\<not> trusted (example_trigger False 7)"
    by (simp add: example_trigger_def)
  have g7: "example_github (repo (example_trigger False 7)) (pr_id (example_trigger False 7)) =
      Inr \<lparr>mergeable = Some True, mergeable_state = py ''clean'',
           base_sha = py ''ba5eba5e00'', head_sha = py ''abcdef0123''\<rparr>"
    by (simp add: example_github_def example_trigger_def)
  show ?thesis
    using untrusted_trigger_events [where t = "example_trigger False 7" and gh = example_github
        and cfg = example_cfg and w = example_world]
    by (simp add: g7 tr) (simp add: example_trigger_def example_world_def py_def)
qed

text \<open>
  C2 as stated fails: the fetch comes before the trust check (the event needs the head
  revision it returns), so an untrusted trigger whose fetch raises gets no event at all.
\<close>

theorem untrusted_trigger_fetch_fails_counterexample:
  "\<not> trusted (example_trigger False 9)
   \<and> process_trigger example_cfg example_github (example_trigger False 9) example_world =
       (Some (Exc ''ConnectionError''), example_world)
   \<and> bus example_world = []"
  by (simp add: process_trigger_def example_github_def example_trigger_def example_world_def)


section \<open>Properties of the supervised task runner\<close>

lemma daemon_run_first_call:
  "snd (snd (daemon_run (Suc m) (scripted script) k)) \<ge> Suc k
   \<and> hd (fst (snd (daemon_run (Suc m) (scripted script) k))) = Running"
proof -
  have mono: "snd (snd (daemon_run n (scripted script) j)) \<ge> j" for n j
  proof (induction n arbitrary: j)
    case 0
    then show ?case by simp
  next
    case (Suc n)
    have sj: "scripted script j = (script j, Suc j)"
      by (simp add: scripted_def)
    from Suc [of "Suc j"] have "j \<le> snd (snd (daemon_run n (scripted script) (Suc j)))"
      by simp
    then show ?case
      by (cases "script j") (auto simp: sj split: prod.splits)
  qed
  have sk: "scripted script k = (script k, Suc k)"
    by (simp add: scripted_def)
  from mono [of "Suc k" m] have "Suc k \<le> snd (snd (daemon_run m (scripted script) (Suc k)))" .
  then show ?thesis
    by (cases "script k") (auto simp: sk split: prod.splits)
qed

text \<open>
  C4 (amended). When the wrapped function raises (an exception deriving from
  \<open>Exception\<close>) on its first two calls and returns normally on the third, the thread
  calls it, logs the exception and sleeps one second, twice, and then makes the third
  call; it is alive after it. The loop does not stop there: in the next turn the function
  is called a fourth time, at once and without a sleep, so it has been called at least
  four times after four turns or more.
\<close>

theorem daemon_run_two_failures:
  assumes "script 0 = Raised e0" and "is_Exception e0"
    and "script 1 = Raised e1" and "is_Exception e1"
    and "script 2 = Returned"
  shows "daemon_run 3 (scripted script) 0 =
           (Alive, [Running, Logged e0, Slept 1, Running, Logged e1, Slept 1, Running], 3)
         \<and> daemon_run (3 + m) (scripted script) 0 =
             (case daemon_run m (scripted script) 3 of
                (st, evs, calls) \<Rightarrow>
                  (st, [Running, Logged e0, Slept 1, Running, Logged e1, Slept 1, Running] @ evs,
                   calls))
         \<and> hd (fst (snd (daemon_run (Suc m) (scripted script) 3))) = Running
         \<and> 4 \<le> snd (snd (daemon_run (4 + m) (scripted script) 0))"
proof -
  have three: "3 = Suc (Suc (Suc 0))" by simp
  have s1: "script (Suc 0) = Raised e1" using assms(3) by simp
  have s2: "script (Suc (Suc 0)) = Returned" using assms(5) by (simp add: numeral_2_eq_2)
  have k3: "Suc (Suc (Suc 0)) = 3" by simp
  have prefix: "daemon_run (Suc (Suc (Suc m))) (scripted script) 0 =
      (case daemon_run m (scripted script) 3 of
         (st, evs, calls) \<Rightarrow>
           (st, [Running, Logged e0, Slept 1, Running, Logged e1, Slept 1, Running] @ evs,
            calls))" for m
  proof -
    have c0: "scripted script 0 = (Raised e0, Suc 0)"
      and c1: "scripted script (Suc 0) = (Raised e1, Suc (Suc 0))"
      and c2: "scripted script (Suc (Suc 0)) = (Returned, 3)"
      using assms(1) s1 s2 by (simp_all add: scripted_def)
    show ?thesis
      using assms(2,4) by (simp add: c0 c1 c2 split: prod.splits)
  qed
  have a: "daemon_run 3 (scripted script) 0 =
           (Alive, [Running, Logged e0, Slept 1, Running, Logged e1, Slept 1, Running], 3)"
    using prefix [of 0] by (simp add: numeral_3_eq_3)
  have b: "daemon_run (3 + m) (scripted script) 0 =
             (case daemon_run m (scripted script) 3 of
                (st, evs, calls) \<Rightarrow>
                  (st, [Running, Logged e0, Slept 1, Running, Logged e1, Slept 1, Running] @ evs,
                   calls))"
    using prefix [of m] by (simp add: numeral_3_eq_3)
  have c: "hd (fst (snd (daemon_run (Suc m) (scripted script) 3))) = Running"
    and d0: "4 \<le> snd (snd (daemon_run (Suc m) (scripted script) 3))"
    using daemon_run_first_call [of 3 m script] by simp_all
  have "daemon_run (4 + m) (scripted script) 0 =
             (case daemon_run (Suc m) (scripted script) 3 of
                (st, evs, calls) \<Rightarrow>
                  (st, [Running, Logged e0, Slept 1, Running, Logged e1, Slept 1, Running] @ evs,
                   calls))"
    using prefix [of "Suc m"] by (simp add: numeral_Bit0 numeral_3_eq_3)
  with d0 have d: "4 \<le> snd (snd (daemon_run (4 + m) (scripted script) 0))"
    by (simp split: prod.splits)
  from a b c d show ?thesis by blast
qed

theorem daemon_run_two_failures_witness:
  "flaky 0 = Raised (Exc ''RuntimeError'') \<and> is_Exception (Exc ''RuntimeError'')
   \<and> flaky 1 = Raised (Exc ''RuntimeError'') \<and> flaky 2 = Returned
   \<and> daemon_run 3 (scripted flaky) 0 =
       (Alive,
        [Running, Logged (Exc ''RuntimeError''), Slept 1,
         Running, Logged (Exc ''RuntimeError''), Slept 1, Running], 3)"
proof -
  have f: "flaky 0 = Raised (Exc ''RuntimeError'')" "flaky 1 = Raised (Exc ''RuntimeError'')"
    "flaky 2 = Returned"
    by (simp_all add: flaky_def)
  have e: "is_Exception (Exc ''RuntimeError'')" by simp
  from daemon_run_two_failures [OF f(1) e f(2) e f(3), of 0] f e show ?thesis by simp
qed

text \<open>
  C4 as stated fails: the function is not called exactly three times. \<open>while True\<close>
  has no exit on a normal return, so the fourth turn of the loop calls it again.
\<close>

theorem daemon_run_fourth_call_counterexample:
  "flaky 0 = Raised (Exc ''RuntimeError'') \<and> flaky 1 = Raised (Exc ''RuntimeError'')
   \<and> flaky 2 = Returned
   \<and> daemon_run 4 (scripted flaky) 0 =
       (Alive,
        [Running, Logged (Exc ''RuntimeError''), Slept 1,
         Running, Logged (Exc ''RuntimeError''), Slept 1, Running, Running], 4)"
  by code_simp

section \<open>Exceptions in the dispatch worker\<close>

lemma fetch_fails_example:
  "process_trigger example_cfg example_github (example_trigger True 9) example_world =
     (Some (Exc ''ConnectionError''), example_world)"
  by (simp add: process_trigger_def example_github_def example_trigger_def)

lemma rejected_example:
  "process_trigger example_cfg example_github (example_trigger True 8) example_world =
     (None,
      example_world\<lparr>bus :=
        [(py ''prbuilder'',
          BuildStatus (PStr (py ''o/r'')) (PStr (py ''0123456789'')) (PStr (py ''012345''))
            (py ''default'') (PInt 8) False False []
            (py ''PR cannot be merged, please rebase.''))]\<rparr>)"
  by (simp add: process_trigger_def example_github_def example_trigger_def dispatch_def)
    (simp add: example_world_def py_def)

text \<open>
  C3 (amended). When the turn for a trigger raises an exception deriving from
  \<open>Exception\<close>, the consuming loop of \<open>PullRequestBuilder.run\<close> ends with it: there is
  no handler at the trigger. The failed trigger is off the queue, and what the turn did
  before the exception stays done. \<open>DaemonThread.run\<close> catches the exception, logs it,
  sleeps one second and calls \<open>run\<close> again, which goes on with the next queued trigger.
  Triggers that were handled without an exception before the failing one do not change
  this.
\<close>

theorem trigger_failure_restarts_loop:
  assumes "process_trigger cfg gh t w = (Some e, w')" and "is_Exception e"
  shows "pr_builder_run cfg gh (t # queue, w) = (Raised e, (queue, w'))
         \<and> daemon_run (Suc n) (pr_builder_run cfg gh) (t # queue, w) =
             (case daemon_run n (pr_builder_run cfg gh) (queue, w') of
                (st, evs, s) \<Rightarrow> (st, [Running, Logged e, Slept 1] @ evs, s))
         \<and> (\<forall>t0 w0. process_trigger cfg gh t0 w0 = (None, w) \<longrightarrow>
               pr_builder_run cfg gh (t0 # t # queue, w0) = (Raised e, (queue, w')))"
  using assms by simp

theorem trigger_failure_restarts_loop_witness:
  "process_trigger example_cfg example_github (example_trigger True 9) example_world =
     (Some (Exc ''ConnectionError''), example_world)
   \<and> is_Exception (Exc ''ConnectionError'')
   \<and> daemon_run 2 (pr_builder_run example_cfg example_github)
         ([example_trigger True 9, example_trigger True 8], example_world) =
       (Waiting,
        [Running, Logged (Exc ''ConnectionError''), Slept 1, Running],
        ([],
         example_world\<lparr>bus :=
           [(py ''prbuilder'',
             BuildStatus (PStr (py ''o/r'')) (PStr (py ''0123456789'')) (PStr (py ''012345''))
               (py ''default'') (PInt 8) False False []
               (py ''PR cannot be merged, please rebase.''))]\<rparr>))"
proof -
  have e: "is_Exception (Exc ''ConnectionError'')" by simp
  have two: "2 = Suc (Suc 0)" by simp
  from trigger_failure_restarts_loop [OF fetch_fails_example e,
      of "[example_trigger True 8]" "Suc 0"]
  show ?thesis
    by (simp add: fetch_fails_example rejected_example two)
qed

text \<open>
  C3 as stated fails: the exception is not caught at the trigger, the consuming loop does
  end (with the second trigger still queued), and the worker does not go on to the next
  trigger directly but after the runner has logged the exception and slept one second.
\<close>

theorem trigger_failure_ends_loop_counterexample:
  "pr_builder_run example_cfg example_github
     ([example_trigger True 9, example_trigger True 8], example_world) =
     (Raised (Exc ''ConnectionError''), ([example_trigger True 8], example_world))
   \<and> daemon_run 1 (pr_builder_run example_cfg example_github)
         ([example_trigger True 9, example_trigger True 8], example_world) =
       (Alive, [Running, Logged (Exc ''ConnectionError''), Slept 1],
        ([example_trigger True 8], example_world))"
  by (simp add: fetch_fails_example)


section \<open>Properties of the status collector\<close>

lemma py_keys_distinct:
  "py ''headrev'' \<noteq> py ''repo''" "py ''headrev'' \<noteq> py ''shortrev''"
  "py ''headrev'' \<noteq> py ''pr_id''" "py ''repo'' \<noteq> py ''shortrev''"
  "py ''repo'' \<noteq> py ''pr_id''" "py ''shortrev'' \<noteq> py ''pr_id''"
  "py ''repo'' \<noteq> py ''headrev''" "py ''shortrev'' \<noteq> py ''headrev''"
  "py ''pr_id'' \<noteq> py ''headrev''" "py ''shortrev'' \<noteq> py ''repo''"
  "py ''pr_id'' \<noteq> py ''repo''" "py ''pr_id'' \<noteq> py ''shortrev''"
  by (simp_all add: py_def)

text \<open>
  C7. For a raw result whose collapsed properties hold \<open>headrev\<close>, \<open>repo\<close> and
  \<open>shortrev\<close>, \<open>pending\<close> is the negation of \<open>complete\<close> and \<open>success\<close> is the result
  code being 0 or 1. A result of a pull-request builder gives exactly one \<open>BuildStatus\<close>
  event with these two flags; with \<open>complete\<close> true and result code 1 it has success
  true, pending false and the description "Build succeeded on builder <name>". A result
  of a downstream-CI builder that is not a pull-request builder, with a pull-request id
  present (a \<open>pr_id\<close> that Python takes as true: every non-zero number, every non-empty
  string) and result code 0, gives exactly one \<open>PullRequestFifoCIStatus\<close> event and no
  \<open>BuildStatus\<close>; a result of a builder that is not a pull-request builder, without
  success, gives no event and changes nothing.
\<close>

theorem collector_classifies:
  assumes "collapse (properties evt) = Inr props"
    and "contains props (py ''headrev'')" and "contains props (py ''repo'')"
    and "contains props (py ''shortrev'')"
  shows
    "let builder = builder_name evt;
         pending = (\<not> complete evt);
         success = (results evt = 0 \<or> results evt = 1);
         status = (\<lambda>description.
           (py ''buildbot'',
            BuildStatus (getattr props (py ''repo'')) (getattr props (py ''headrev''))
              (getattr props (py ''shortrev'')) builder (getattr props (py ''pr_id''))
              success pending (url evt) description));
         confirmed =
           (py ''buildbot'',
            PullRequestFifoCIStatus (getattr props (py ''repo'')) (getattr props (py ''headrev''))
              builder (getattr props (py ''pr_id'')))
     in (builder \<in> set (buildbot_pr_builders cfg) \<longrightarrow>
           process_result cfg evt w =
             (None,
              w\<lparr>bus := bus w @
                [status
                   (if pending then py ''Auto build in progress on builder '' @ builder
                    else if success then py ''Build succeeded on builder '' @ builder
                    else py ''Build failed on builder '' @ builder)]\<rparr>))
        \<and> (builder \<in> set (buildbot_pr_builders cfg) \<and> complete evt \<and> results evt = 1 \<longrightarrow>
             success \<and> \<not> pending
             \<and> process_result cfg evt w =
                 (None, w\<lparr>bus := bus w @ [status (py ''Build succeeded on builder '' @ builder)]\<rparr>))
        \<and> (builder \<notin> set (buildbot_pr_builders cfg)
             \<and> builder \<in> set (buildbot_fifoci_builders cfg)
             \<and> truthy (getattr props (py ''pr_id'')) \<and> results evt = 0 \<longrightarrow>
             process_result cfg evt w = (None, w\<lparr>bus := bus w @ [confirmed]\<rparr>))
        \<and> (builder \<notin> set (buildbot_pr_builders cfg) \<and> \<not> success \<longrightarrow>
             process_result cfg evt w = (None, w))"
  using assms by (simp add: process_result_def Let_def dispatch_def)

theorem collector_classifies_witness:
  "process_result example_cfg
     (example_result (py ''linux'') ((py ''pr_id'', [PInt 7, PStr (py ''Build'')]) # example_properties)
        True 1)
     example_world =
     (None,
      example_world\<lparr>bus :=
        [(py ''buildbot'',
          BuildStatus (PStr (py ''o/r'')) (PStr (py ''abcdef0123'')) (PStr (py ''abcdef''))
            (py ''linux'') (PInt 7) True False (py ''https://buildbot.example/b/1'')
            (py ''Build succeeded on builder linux''))]\<rparr>)
   \<and> process_result example_cfg
     (example_result (py ''fifoci'') ((py ''pr_id'', [PInt 7, PStr (py ''Build'')]) # example_properties)
        True 0)
     example_world =
     (None,
      example_world\<lparr>bus :=
        [(py ''buildbot'',
          PullRequestFifoCIStatus (PStr (py ''o/r'')) (PStr (py ''abcdef0123''))
            (py ''fifoci'') (PInt 7))]\<rparr>)
   \<and> process_result example_cfg
     (example_result (py ''fifoci'') ((py ''pr_id'', [PInt 7, PStr (py ''Build'')]) # example_properties)
        True 2)
     example_world = (None, example_world)"
proof -
  let ?props = "[(py ''pr_id'', PInt 7), (py ''headrev'', PStr (py ''abcdef0123'')),
          (py ''repo'', PStr (py ''o/r'')), (py ''shortrev'', PStr (py ''abcdef''))]"
  let ?ps = "(py ''pr_id'', [PInt 7, PStr (py ''Build'')]) # example_properties"
  have c: "collapse (properties (example_result b ?ps cpl r)) = Inr ?props" for b cpl r
    by (simp add: example_result_def example_properties_def)
  have k: "contains ?props (py ''headrev'')" "contains ?props (py ''repo'')"
    "contains ?props (py ''shortrev'')"
    by (simp_all add: contains_def py_keys_distinct)
  have g: "getattr ?props (py ''headrev'') = PStr (py ''abcdef0123'')"
    "getattr ?props (py ''repo'') = PStr (py ''o/r'')"
    "getattr ?props (py ''shortrev'') = PStr (py ''abcdef'')"
    "getattr ?props (py ''pr_id'') = PInt 7"
    by (simp_all add: getattr_def py_keys_distinct)
  have b: "py ''linux'' \<in> set (buildbot_pr_builders example_cfg)"
    "py ''fifoci'' \<notin> set (buildbot_pr_builders example_cfg)"
    "py ''fifoci'' \<in> set (buildbot_fifoci_builders example_cfg)"
    by (simp_all add: example_cfg_def py_def)
  have f: "builder_name (example_result b ?ps cpl r) = b" "complete (example_result b ?ps cpl r) = cpl"
    "results (example_result b ?ps cpl r) = r"
    "url (example_result b ?ps cpl r) = py ''https://buildbot.example/b/1''" for b cpl r
    by (simp_all add: example_result_def)
  have w0: "bus example_world = []" by (simp add: example_world_def)
  have d: "py ''Build succeeded on builder '' @ py ''linux'' = py ''Build succeeded on builder linux''"
    by (simp add: py_def)
  show ?thesis
    using collector_classifies [OF c k, of "py ''linux''" True 1 example_cfg example_world]
      collector_classifies [OF c k, of "py ''fifoci''" True 0 example_cfg example_world]
      collector_classifies [OF c k, of "py ''fifoci''" True 2 example_cfg example_world]
    by (simp add: Let_def f g b w0 d)
qed

text \<open>
  C8. A raw result whose collapsed properties lack \<open>headrev\<close>, \<open>repo\<close> or \<open>shortrev\<close>
  is dropped: the turn raises nothing and leaves the world as it was (no event, no other
  effect), and the loop goes on with the next queued result.
\<close>

theorem collector_drops_incomplete:
  assumes "collapse (properties evt) = Inr props"
    and "\<not> contains props (py ''headrev'') \<or> \<not> contains props (py ''repo'')
         \<or> \<not> contains props (py ''shortrev'')"
  shows "process_result cfg evt w = (None, w)
         \<and> collector_run cfg (evt # queue, w) = collector_run cfg (queue, w)"
  using assms by (auto simp: process_result_def Let_def)

theorem collector_drops_incomplete_witness:
  "collapse (properties (example_result (py ''linux'') (butlast example_properties) True 0)) =
     Inr [(py ''headrev'', PStr (py ''abcdef0123'')), (py ''repo'', PStr (py ''o/r''))]
   \<and> \<not> contains [(py ''headrev'', PStr (py ''abcdef0123'')), (py ''repo'', PStr (py ''o/r''))]
         (py ''shortrev'')
   \<and> process_result example_cfg
         (example_result (py ''linux'') (butlast example_properties) True 0) example_world =
       (None, example_world)
   \<and> collector_run example_cfg
         ([example_result (py ''linux'') (butlast example_properties) True 0], example_world) =
       (Blocked, ([], example_world))"
proof -
  let ?props = "[(py ''headrev'', PStr (py ''abcdef0123'')), (py ''repo'', PStr (py ''o/r''))]"
  let ?evt = "example_result (py ''linux'') (butlast example_properties) True 0"
  have c: "collapse (properties ?evt) = Inr ?props"
    by (simp add: example_result_def example_properties_def)
  have k: "\<not> contains ?props (py ''shortrev'')"
    by (simp add: contains_def py_keys_distinct)
  then have k': "\<not> contains ?props (py ''headrev'') \<or> \<not> contains ?props (py ''repo'')
         \<or> \<not> contains ?props (py ''shortrev'')"
    by simp
  from collector_drops_incomplete [OF c k', of example_cfg example_world "[]"] c k
  show ?thesis by simp
qed

text \<open>
  C10. A raw result of a pull-request builder whose collapsed properties hold
  \<open>headrev\<close>, \<open>repo\<close> and \<open>shortrev\<close> but no \<open>pr_id\<close> still gives its \<open>BuildStatus\<close>
  event, and raises nothing: \<open>props.pr_id\<close> is \<open>None\<close>, and that is the pull-request id
  of the event.
\<close>

theorem collector_missing_pr_id:
  assumes "collapse (properties evt) = Inr props"
    and "contains props (py ''headrev'')" and "contains props (py ''repo'')"
    and "contains props (py ''shortrev'')"
    and "\<not> contains props (py ''pr_id'')"
    and "builder_name evt \<in> set (buildbot_pr_builders cfg)"
  shows "getattr props (py ''pr_id'') = PNone
         \<and> process_result cfg evt w =
               (None,
                w\<lparr>bus := bus w @
                  [(py ''buildbot'',
                    BuildStatus (getattr props (py ''repo'')) (getattr props (py ''headrev''))
                      (getattr props (py ''shortrev'')) (builder_name evt) PNone
                      (results evt = 0 \<or> results evt = 1) (\<not> complete evt) (url evt)
                      (if \<not> complete evt
                       then py ''Auto build in progress on builder '' @ builder_name evt
                       else if results evt = 0 \<or> results evt = 1
                       then py ''Build succeeded on builder '' @ builder_name evt
                       else py ''Build failed on builder '' @ builder_name evt))]\<rparr>)"
proof -
  from assms(5) have none: "getattr props (py ''pr_id'') = PNone"
    by (simp add: contains_def getattr_def)
  show ?thesis
    using assms(1-4,6) none by (simp add: process_result_def Let_def dispatch_def)
qed

theorem collector_missing_pr_id_witness:
  "\<not> contains [(py ''headrev'', PStr (py ''abcdef0123'')), (py ''repo'', PStr (py ''o/r'')),
          (py ''shortrev'', PStr (py ''abcdef''))] (py ''pr_id'')
   \<and> process_result example_cfg (example_result (py ''win'') example_properties False 0)
         example_world =
       (None,
        example_world\<lparr>bus :=
          [(py ''buildbot'',
            BuildStatus (PStr (py ''o/r'')) (PStr (py ''abcdef0123'')) (PStr (py ''abcdef''))
              (py ''win'') PNone True True (py ''https://buildbot.example/b/1'')
              (py ''Auto build in progress on builder win''))]\<rparr>)"
proof -
  let ?props = "[(py ''headrev'', PStr (py ''abcdef0123'')), (py ''repo'', PStr (py ''o/r'')),
          (py ''shortrev'', PStr (py ''abcdef''))]"
  let ?evt = "example_result (py ''win'') example_properties False 0"
  have c: "collapse (properties ?evt) = Inr ?props"
    by (simp add: example_result_def example_properties_def)
  have k: "contains ?props (py ''headrev'')" "contains ?props (py ''repo'')"
    "contains ?props (py ''shortrev'')"
    by (simp_all add: contains_def py_keys_distinct)
  have n: "\<not> contains ?props (py ''pr_id'')"
    by (simp add: contains_def py_keys_distinct)
  have g: "getattr ?props (py ''headrev'') = PStr (py ''abcdef0123'')"
    "getattr ?props (py ''repo'') = PStr (py ''o/r'')"
    "getattr ?props (py ''shortrev'') = PStr (py ''abcdef'')"
    by (simp_all add: getattr_def py_keys_distinct)
  have b: "builder_name ?evt \<in> set (buildbot_pr_builders example_cfg)"
    by (simp add: example_result_def example_cfg_def)
  have f: "builder_name ?evt = py ''win''" "complete ?evt = False" "results ?evt = 0"
    "url ?evt = py ''https://buildbot.example/b/1''"
    by (simp_all add: example_result_def)
  have w0: "bus example_world = []" by (simp add: example_world_def)
  have d: "py ''Auto build in progress on builder '' @ py ''win'' =
      py ''Auto build in progress on builder win''"
    by (simp add: py_def)
  from collector_missing_pr_id [OF c k n b, of example_world] n
  show ?thesis by (simp add: f g w0 d)
qed


end
